theory Spec2Isabelle
  imports Main
begin

section \<open>Data model of a Niagara function call node\<close>

text \<open>
  The development embeds \<^verbatim>\<open>NiagaraNodeFunctionCall.cpp\<close>: the compilation of a call
  site (\<^verbatim>\<open>Compile\<close>), auto-binding (\<^verbatim>\<open>FindAutoBoundInput\<close>), the cycle check
  (\<^verbatim>\<open>CanAddToGraph\<close>), the dependency aggregation
  (\<^verbatim>\<open>GatherExternalDependencyData\<close>), the refresh of propagated static switches
  (\<^verbatim>\<open>RefreshFromExternalChanges\<close>) and the scoped history traversal
  (\<^verbatim>\<open>BuildParameterMapHistory\<close>).

  Objects are values; a mutable object that the code reaches through a pointer is a
  component of an explicit state that the functions take and return. A failed
  \<^verbatim>\<open>check(...)\<close> or a dereferenced null pointer stops the program: it is the
  \<open>Inl\<close> branch of a sum type.
\<close>

type_synonym FName = string

definition NAME_None :: FName where
  "NAME_None = []"

datatype FNiagaraTypeDefinition =
  FNiagaraTypeDefinition (TypeName: string) (IsDataInterface: bool)

text \<open>A variable is a name with a type; \<^verbatim>\<open>operator==\<close> compares both.\<close>

datatype FNiagaraVariable =
  FNiagaraVariable (GetName: FName) (GetType: FNiagaraTypeDefinition)

datatype ENiagaraScriptUsage =
  Function | Module | DynamicInput | ParticleSpawnScript | ParticleUpdateScript

datatype ENiagaraInputNodeUsage =
  Undefined | Parameter | Attribute | SystemConstant

datatype error = CheckFailed | NullDereference

text \<open>
  A pin is referred to by the pins linked to it. A pin that exists in the caller graph
  before a compile has a number; the output pin of the \<open>k\<close>-th input node that a
  compile creates is \<open>AutoBoundOutput k\<close>, so that a new object never shares its identity
  with an old one.
\<close>

datatype PinRef = GraphPin nat | AutoBoundOutput nat

text \<open>
  \<open>PinVar\<close> is the variable that \<^verbatim>\<open>Schema->PinToNiagaraVariable\<close> yields for the
  pin, \<open>PinDisplayName\<close> what \<^verbatim>\<open>GetDisplayName\<close> yields.
\<close>

record UEdGraphPin =
  PinName :: FName
  PinVar :: FNiagaraVariable
  PinDisplayName :: string
  LinkedTo :: "PinRef list"
  bDefaultValueIsIgnored :: bool
  bNotConnectable :: bool

text \<open>
  An input node of the called graph, with the answers of its accessors
  \<^verbatim>\<open>IsExposed()\<close>, \<^verbatim>\<open>IsRequired()\<close>, \<^verbatim>\<open>CanAutoBind()\<close> and its field
  \<^verbatim>\<open>ExposureOptions.bRequired\<close>.
\<close>

record UNiagaraNodeInput =
  Input :: FNiagaraVariable
  IsExposed :: bool
  IsRequired :: bool
  ExposureOptions_bRequired :: bool
  CanAutoBind :: bool

text \<open>
  An input node that \<^verbatim>\<open>Compile\<close> creates in the caller graph for an auto-bound
  input: its variable, its usage, and the caller pin (by position among the call site's
  input pins) that its output pin is linked to.
\<close>

record AutoBoundNode =
  NewNode_Input :: FNiagaraVariable
  NewNode_Usage :: ENiagaraInputNodeUsage
  NewNode_OutputLinkedTo :: "nat list"

record UNiagaraNodeOutput =
  Outputs :: "FNiagaraVariable list"
  GetAllPins :: "UEdGraphPin list"

text \<open>
  A graph, as far as a call site asks it: the output node of a usage, the input nodes
  (\<^verbatim>\<open>FindInputNodes\<close> with \<^verbatim>\<open>bSort\<close> and \<^verbatim>\<open>bFilterDuplicates\<close>), the static
  switch inputs, the change id and the outputs that \<^verbatim>\<open>GetParameters\<close> yields.
\<close>

record UNiagaraGraph =
  FindOutputNode :: "ENiagaraScriptUsage \<Rightarrow> UNiagaraNodeOutput option"
  FindInputNodes :: "UNiagaraNodeInput list"
  FindStaticSwitchInputs :: "FNiagaraVariable list"
  GetChangeID :: nat
  GetParameters_Outputs :: "FNiagaraVariable list"
  AutoBoundNodes :: "AutoBoundNode list"

text \<open>
  \<open>AutoBoundNodes\<close> are the input nodes that compiles have created with this graph as
  their outer object (\<^verbatim>\<open>NewObject<UNiagaraNodeInput>(CallerGraph)\<close>), oldest first.
\<close>

record UNiagaraScript =
  bDeprecated :: bool
  bExperimental :: bool
  ExperimentalMessage :: string
  NodeGraph :: UNiagaraGraph

record FNiagaraFunctionSignature =
  Signature_IsValid :: bool
  Signature_Inputs :: "FNiagaraVariable list"
  Signature_Outputs :: "FNiagaraVariable list"
  bRequiresExecPin :: bool
  bSoftDeprecatedFunction :: bool
  Signature_bExperimental :: bool
  Signature_ExperimentalMessage :: string

text \<open>
  The call site. \<open>FunctionScript\<close> is a nullable pointer; \<open>NodeGraph\<close> of a script is the
  graph of its source. \<open>PropagatedStaticSwitchParameters\<close> holds the
  \<^verbatim>\<open>SwitchParameter\<close> of each propagated variable.
\<close>

record UNiagaraNodeFunctionCall =
  FunctionScript :: "UNiagaraScript option"
  FunctionScriptAssetObjectPath :: FName
  Signature :: FNiagaraFunctionSignature
  FunctionDisplayName :: string
  IsNodeEnabled :: bool
  GetValidateDataInterfaces :: bool
  GetInputPins :: "UEdGraphPin list"
  GetOutputPins :: "UEdGraphPin list"
  PropagatedStaticSwitchParameters :: "FNiagaraVariable list"
  CachedChangeId :: nat

section \<open>Auto-binding\<close>

text \<open>
  \<^verbatim>\<open>FindAutoBoundInput\<close>. The two out-parameters and the returned flag are one
  optional pair. \<open>IsEquivalent\<close> is \<^verbatim>\<open>FNiagaraVariable::IsEquivalent\<close> and
  \<open>EngineConstants\<close> the array of \<^verbatim>\<open>FNiagaraConstants::GetEngineConstants\<close>; both are
  declared outside this file and are parameters.
\<close>

definition FindAutoBoundInput ::
  "(FNiagaraVariable \<Rightarrow> FNiagaraVariable \<Rightarrow> bool) \<Rightarrow> FNiagaraVariable list \<Rightarrow> UNiagaraGraph \<Rightarrow>
   UNiagaraNodeInput \<Rightarrow> UEdGraphPin \<Rightarrow> error + (FNiagaraVariable \<times> ENiagaraInputNodeUsage) option" where
  "FindAutoBoundInput IsEquivalent EngineConstants CallerGraph InputNode PinToAutoBind =
     (if \<not> IsExposed InputNode then Inl CheckFailed
      else if LinkedTo PinToAutoBind \<noteq> [] \<or> \<not> CanAutoBind InputNode then Inr None
      else
        let CallerOutputNodeSpawn = FindOutputNode CallerGraph ParticleSpawnScript;
            CallerOutputNodeUpdate = FindOutputNode CallerGraph ParticleUpdateScript;
            CallerOutputNode =
              (case CallerOutputNodeSpawn of Some n \<Rightarrow> Some n | None \<Rightarrow> CallerOutputNodeUpdate);
            AttrVarPtr =
              (case CallerOutputNode of
                 None \<Rightarrow> None
               | Some n \<Rightarrow> find (\<lambda>Attr. IsEquivalent (PinVar PinToAutoBind) Attr) (Outputs n))
        in case AttrVarPtr of
             Some AttrVar \<Rightarrow> Inr (Some (AttrVar, Attribute))
           | None \<Rightarrow>
               if PinVar PinToAutoBind \<in> set EngineConstants
               then Inr (Some (PinVar PinToAutoBind, SystemConstant))
               else Inr None)"

section \<open>Compiling a call site\<close>

datatype FText =
    DeprecationMessage
  | StaleFunctionCallError
  | RequiredInputUnboundErrorFmt string
  | UnknownFunction string
  | ValidationError string
  | FunctionExperimental
  | FunctionExperimentalReason string
  | FunctionDeprecatedSoftly

text \<open>
  The calls on the translator that leave a trace. The pin of an error is the position of
  the caller pin among the call site's input pins, or \<open>None\<close> for \<^verbatim>\<open>nullptr\<close>.
\<close>

datatype TranslatorCall =
    Warning FText
  | Error FText "nat option"
  | EnterFunctionCallNode "FName list"
  | SetStaticSwitchConstants
  | ExitFunctionCallNode
  | FunctionCall "int list"

text \<open>
  What \<^verbatim>\<open>Compile\<close> uses and this file does not define: the equivalence of
  variables, the engine constants, \<^verbatim>\<open>UNiagaraNode::TraceOutputPin\<close> on the pins of the
  caller graph, the translator's \<^verbatim>\<open>CompilePin\<close> and \<^verbatim>\<open>GetConstant\<close>, the names
  of the unused input pins (\<^verbatim>\<open>GetUnusedFunctionInputPins\<close>), the errors that the data
  interface's \<^verbatim>\<open>ValidateFunction\<close> finds (\<open>None\<close> when the class default object is
  not a data interface) and what \<^verbatim>\<open>CompileInputPins\<close> returns and adds to \<open>Inputs\<close>.
\<close>

record Externals =
  IsEquivalent :: "FNiagaraVariable \<Rightarrow> FNiagaraVariable \<Rightarrow> bool"
  GetEngineConstants :: "FNiagaraVariable list"
  TraceGraphPin :: "nat \<Rightarrow> PinRef option"
  CompilePin :: "UEdGraphPin \<Rightarrow> int"
  GetConstant :: "FNiagaraVariable \<Rightarrow> int"
  GetUnusedFunctionInputPins :: "FName list"
  ValidateFunction :: "FText list option"
  CompileInputPins :: "bool \<times> int list"

definition INDEX_NONE :: int where
  "INDEX_NONE = - 1"

text \<open>
  Modelled from the spec: \<^verbatim>\<open>UNiagaraNode::TraceOutputPin\<close> is declared outside this
  file. It traces through pass-through nodes to the true source output (section 4.2,
  step 2); an input node is a source, so its output pin is its own trace. On the pins
  that the caller graph already had it is the parameter \<open>TraceGraphPin\<close>.
\<close>

fun TraceOutputPin :: "Externals \<Rightarrow> PinRef \<Rightarrow> PinRef option" where
  "TraceOutputPin X (GraphPin p) = TraceGraphPin X p"
| "TraceOutputPin X (AutoBoundOutput k) = Some (AutoBoundOutput k)"

text \<open>
  The state that the loop over the function's input nodes reads and writes: the call
  site's input pins, the nodes created in the caller graph, the array \<open>Inputs\<close>, the
  flag \<open>bError\<close> and the calls made on the translator.
\<close>

record CompileState =
  CallerInputPins :: "UEdGraphPin list"
  NewNodes :: "AutoBoundNode list"
  Inputs :: "int list"
  bError :: bool
  Calls :: "TranslatorCall list"

text \<open>\<^verbatim>\<open>CallerInputPins.FindByPredicate\<close>: the position of the first matching pin.\<close>

fun FindByPredicate :: "('a \<Rightarrow> bool) \<Rightarrow> 'a list \<Rightarrow> nat option" where
  "FindByPredicate P [] = None"
| "FindByPredicate P (x # xs) =
     (if P x then Some 0 else map_option Suc (FindByPredicate P xs))"

definition FindCallerPin :: "Externals \<Rightarrow> UEdGraphPin list \<Rightarrow> UNiagaraNodeInput \<Rightarrow> nat option" where
  "FindCallerPin X Pins FunctionInputNode =
     FindByPredicate (\<lambda>InPin. IsEquivalent X (PinVar InPin) (Input FunctionInputNode)) Pins"

text \<open>
  \<^verbatim>\<open>CallerPin->LinkedTo.Num() > 0 ? TraceOutputPin(CallerPin->LinkedTo[0]) : nullptr\<close>
\<close>

definition CallerLinkedTo :: "Externals \<Rightarrow> UEdGraphPin \<Rightarrow> PinRef option" where
  "CallerLinkedTo X CallerPin =
     (case LinkedTo CallerPin of [] \<Rightarrow> None | q # _ \<Rightarrow> TraceOutputPin X q)"

definition Add :: "int \<Rightarrow> CompileState \<Rightarrow> CompileState" where
  "Add h st = st\<lparr>Inputs := Inputs st @ [h]\<rparr>"

definition Call :: "TranslatorCall \<Rightarrow> CompileState \<Rightarrow> CompileState" where
  "Call c st = st\<lparr>Calls := Calls st @ [c]\<rparr>"

text \<open>
  The creation of the input node for an auto-bound pin: the node is appended to the
  nodes of the caller graph, the links of the caller pin are broken and the pin is
  linked to the node's output pin, which is linked back.
\<close>

definition AutoBind :: "nat \<Rightarrow> ENiagaraInputNodeUsage \<Rightarrow> CompileState \<Rightarrow> CompileState" where
  "AutoBind i AutBoundUsage st =
     (let CallerPin = CallerInputPins st ! i;
          NewNode = \<lparr>NewNode_Input = PinVar CallerPin, NewNode_Usage = AutBoundUsage,
                     NewNode_OutputLinkedTo = [i]\<rparr>
      in st\<lparr>CallerInputPins :=
               (CallerInputPins st)[i := CallerPin\<lparr>LinkedTo := [AutoBoundOutput (length (NewNodes st))]\<rparr>],
             NewNodes := NewNodes st @ [NewNode]\<rparr>)"

text \<open>The body of the loop of \<^verbatim>\<open>Compile\<close> for one input node of the function.\<close>

definition CompileFunctionInput ::
  "Externals \<Rightarrow> UNiagaraGraph \<Rightarrow> UNiagaraNodeInput \<Rightarrow> CompileState \<Rightarrow> error + CompileState" where
  "CompileFunctionInput X CallerGraph FunctionInputNode st =
     (case FindCallerPin X (CallerInputPins st) FunctionInputNode of
        None \<Rightarrow>
          if IsExposed FunctionInputNode
          then Inr (Add INDEX_NONE ((Call (Error StaleFunctionCallError None) st)\<lparr>bError := True\<rparr>))
          else if ExposureOptions_bRequired FunctionInputNode
          then Inr (Add (GetConstant X (Input FunctionInputNode)) st)
          else Inr (Add INDEX_NONE st)
      | Some i \<Rightarrow>
          let CallerPin = CallerInputPins st ! i in
          (case CallerLinkedTo X CallerPin of
             Some q \<Rightarrow> Inr (Add (CompilePin X CallerPin) st)
           | None \<Rightarrow>
               (case FindAutoBoundInput (IsEquivalent X) (GetEngineConstants X) CallerGraph
                       FunctionInputNode CallerPin of
                  Inl e \<Rightarrow> Inl e
                | Inr (Some (AutoBoundVar, AutBoundUsage)) \<Rightarrow>
                    let st' = AutoBind i AutBoundUsage st
                    in Inr (Add (CompilePin X (CallerInputPins st' ! i)) st')
                | Inr None \<Rightarrow>
                    if IsRequired FunctionInputNode
                    then if bDefaultValueIsIgnored CallerPin
                         then Inr (Add INDEX_NONE
                                ((Call (Error (RequiredInputUnboundErrorFmt (PinDisplayName CallerPin)) (Some i)) st)
                                   \<lparr>bError := True\<rparr>))
                         else Inr (Add (CompilePin X CallerPin) st)
                    else Inr (Add INDEX_NONE st))))"

text \<open>The loop over the input nodes, in the order of \<^verbatim>\<open>FunctionInputNodes\<close>.\<close>

fun CompileFunctionInputs ::
  "Externals \<Rightarrow> UNiagaraGraph \<Rightarrow> UNiagaraNodeInput list \<Rightarrow> CompileState \<Rightarrow> error + CompileState" where
  "CompileFunctionInputs X CallerGraph [] st = Inr st"
| "CompileFunctionInputs X CallerGraph (FunctionInputNode # rest) st =
     (case CompileFunctionInput X CallerGraph FunctionInputNode st of
        Inl e \<Rightarrow> Inl e
      | Inr st' \<Rightarrow> CompileFunctionInputs X CallerGraph rest st')"

text \<open>
  \<^verbatim>\<open>Compile\<close>. The result holds the pins and the caller graph's created nodes as the
  compile leaves them, and every call made on the translator. The early return of the
  signature branch leaves \<open>bError\<close> set, so it makes no \<^verbatim>\<open>FunctionCall\<close> either.
\<close>

definition InitialState :: "UNiagaraGraph \<Rightarrow> UNiagaraNodeFunctionCall \<Rightarrow> CompileState" where
  "InitialState CallerGraph this =
     \<lparr>CallerInputPins = GetInputPins this, NewNodes = AutoBoundNodes CallerGraph,
      Inputs = [], bError = False, Calls = []\<rparr>"

definition CompileSignature :: "Externals \<Rightarrow> UNiagaraNodeFunctionCall \<Rightarrow> CompileState \<Rightarrow> CompileState" where
  "CompileSignature X this st =
     (let ValidationErrors =
            (case Signature_Inputs (Signature this) of
               [] \<Rightarrow> []
             | v # _ \<Rightarrow>
                 if IsDataInterface (GetType v) \<and> GetValidateDataInterfaces this
                 then (case ValidateFunction X of None \<Rightarrow> [] | Some errs \<Rightarrow> errs)
                 else [])
      in if ValidationErrors \<noteq> []
         then (fold (\<lambda>e. Call (Error e None)) ValidationErrors st)\<lparr>bError := True\<rparr>
         else (Call ExitFunctionCallNode (Call (EnterFunctionCallNode []) st))
                \<lparr>Inputs := Inputs st @ snd (CompileInputPins X), bError := fst (CompileInputPins X)\<rparr>)"

text \<open>
  The state in which the loop over the input nodes starts: the deprecation warning, when
  the script is deprecated and the node enabled, and \<^verbatim>\<open>EnterFunctionCallNode\<close>.
\<close>

definition EnterScript ::
  "Externals \<Rightarrow> UNiagaraGraph \<Rightarrow> UNiagaraNodeFunctionCall \<Rightarrow> UNiagaraScript \<Rightarrow> CompileState" where
  "EnterScript X CallerGraph this script =
     (let st0 = InitialState CallerGraph this;
          st1 = (if bDeprecated script \<and> IsNodeEnabled this
                 then Call (Warning DeprecationMessage) st0 else st0)
      in Call (EnterFunctionCallNode (GetUnusedFunctionInputPins X)) st1)"

definition Compile ::
  "Externals \<Rightarrow> UNiagaraGraph \<Rightarrow> UNiagaraNodeFunctionCall \<Rightarrow> error + CompileState" where
  "Compile X CallerGraph this =
     (let r = (case FunctionScript this of
                 Some script \<Rightarrow>
                   (case CompileFunctionInputs X CallerGraph (FindInputNodes (NodeGraph script))
                           (EnterScript X CallerGraph this script) of
                      Inl e \<Rightarrow> Inl e
                    | Inr st \<Rightarrow> Inr (Call ExitFunctionCallNode (Call SetStaticSwitchConstants st)))
               | None \<Rightarrow>
                   if Signature_IsValid (Signature this)
                   then Inr (CompileSignature X this (InitialState CallerGraph this))
                   else Inr ((Call (Error (UnknownFunction (FunctionDisplayName this)) None)
                                (InitialState CallerGraph this))\<lparr>bError := True\<rparr>))
      in case r of
           Inl e \<Rightarrow> Inl e
         | Inr st \<Rightarrow> Inr (if \<not> bError st then Call (FunctionCall (Inputs st)) st else st))"



section \<open>The cycle check before a node is added to a graph\<close>

type_synonym UPackage = nat

text \<open>
  The target graph, as far as \<^verbatim>\<open>CanAddToGraph\<close> and the inherited check can reach it
  through the pointer \<^verbatim>\<open>TargetGraph\<close>: its package (\<^verbatim>\<open>GetOutermost()\<close>, nullable) and
  its nodes (\<^verbatim>\<open>Nodes\<close>), by name.
\<close>

record UEdGraph =
  GetOutermost :: "UPackage option"
  Graph_Nodes :: "FName list"

text \<open>
  A script as \<^verbatim>\<open>CanAddToGraph\<close> reads it. \<open>HasScriptSource\<close> says that
  \<^verbatim>\<open>GetSource()\<close> is not null and is a \<^verbatim>\<open>UNiagaraScriptSource\<close>. \<open>ReferencedGraphs\<close> is
  \<open>None\<close> when the source's \<^verbatim>\<open>NodeGraph\<close> is null; otherwise it lists, for each graph
  that \<^verbatim>\<open>FunctionGraph->GetAllReferencedGraphs\<close> puts into the array, in the array's
  order, what \<^verbatim>\<open>GetOutermost()\<close> returns for it (a nullable package).
  \<^verbatim>\<open>GetAllReferencedGraphs\<close> is declared outside this file.
\<close>

record SpawningScript =
  HasScriptSource :: bool
  ReferencedGraphs :: "UPackage option list option"

record SpawningNode =
  Spawning_FunctionScript :: "SpawningScript option"
  Spawning_FunctionScriptAssetObjectPath :: FName

definition CycleErrorMsg :: string where
  "CycleErrorMsg =
     ''Cannot add to graph because the Function Call used by this node would lead to a cycle.''"

text \<open>
  \<open>GetAssetByObjectPath\<close> is the asset registry: the script that the path loads, or
  \<open>None\<close> when the asset data is invalid or the asset is no script.
\<close>

definition SpawningFunctionScript ::
  "(FName \<Rightarrow> SpawningScript option) \<Rightarrow> SpawningNode \<Rightarrow> SpawningScript option" where
  "SpawningFunctionScript GetAssetByObjectPath this =
     (if Spawning_FunctionScriptAssetObjectPath this \<noteq> NAME_None \<and> Spawning_FunctionScript this = None
      then (case GetAssetByObjectPath (Spawning_FunctionScriptAssetObjectPath this) of
              Some s \<Rightarrow> Some s
            | None \<Rightarrow> Spawning_FunctionScript this)
      else Spawning_FunctionScript this)"

definition FunctionGraphs ::
  "(FName \<Rightarrow> SpawningScript option) \<Rightarrow> SpawningNode \<Rightarrow> UPackage option list" where
  "FunctionGraphs GetAssetByObjectPath this =
     (case SpawningFunctionScript GetAssetByObjectPath this of
        None \<Rightarrow> []
      | Some s \<Rightarrow>
          if HasScriptSource s
          then (case ReferencedGraphs s of None \<Rightarrow> [] | Some gs \<Rightarrow> gs)
          else [])"

text \<open>
  The loop over \<open>FunctionGraphs\<close>, with the message that the caller passed in: the first
  graph whose package is the target's, both not null, ends the function with the cycle
  message.
\<close>

fun CycleLoop :: "UPackage option \<Rightarrow> UPackage option list \<Rightarrow> string \<Rightarrow> bool \<times> string" where
  "CycleLoop TargetPackage [] OutErrorMsg = (True, OutErrorMsg)"
| "CycleLoop TargetPackage (FunctionPackage # rest) OutErrorMsg =
     (if FunctionPackage \<noteq> None \<and> TargetPackage \<noteq> None \<and> FunctionPackage = TargetPackage
      then (False, CycleErrorMsg)
      else CycleLoop TargetPackage rest OutErrorMsg)"

text \<open>
  \<^verbatim>\<open>CanAddToGraph\<close>, on the state that it can reach: the target graph behind the
  pointer \<^verbatim>\<open>TargetGraph\<close> and the message \<^verbatim>\<open>OutErrorMsg\<close>. The result is the returned
  verdict, the message and the target graph as the call leaves them. \<open>Super\<close> is the
  inherited \<^verbatim>\<open>UNiagaraNode::CanAddToGraph\<close>, declared outside this file: it receives
  the same pointer and the same message, so it is a parameter that returns its verdict
  together with the message and the target graph as it leaves them. After it, the code
  of this file asks the target graph for its package and writes the message only.
\<close>

definition CanAddToGraph ::
  "(UEdGraph \<Rightarrow> string \<Rightarrow> bool \<times> string \<times> UEdGraph) \<Rightarrow> (FName \<Rightarrow> SpawningScript option)
   \<Rightarrow> SpawningNode \<Rightarrow> UEdGraph \<Rightarrow> string \<Rightarrow> bool \<times> string \<times> UEdGraph" where
  "CanAddToGraph Super GetAssetByObjectPath this TargetGraph OutErrorMsg =
     (case Super TargetGraph OutErrorMsg of
        (SuperResult, OutErrorMsg', TargetGraph') \<Rightarrow>
          if SuperResult = False then (False, OutErrorMsg', TargetGraph')
          else
            let TargetPackage = GetOutermost TargetGraph';
                Result = CycleLoop TargetPackage (FunctionGraphs GetAssetByObjectPath this) OutErrorMsg'
            in (fst Result, snd Result, TargetGraph'))"

section \<open>Gathering the external dependencies\<close>





text \<open>
  \<^verbatim>\<open>UNiagaraNodeFunctionCall::GatherExternalDependencyData\<close> on the two arrays
  \<^verbatim>\<open>InReferencedCompileHashes\<close> and \<^verbatim>\<open>InReferencedObjs\<close>. \<open>GatherUsages\<close> is its loop
  over the usages from \<^verbatim>\<open>Function\<close> to \<^verbatim>\<open>DynamicInput\<close>; the enumeration is declared
  outside this file, and these are its first three values, in this order. Both
  \<^verbatim>\<open>Add\<close> calls of the loop are unconditional.
\<close>



section \<open>Refreshing a call site from external changes\<close>

datatype EMessageSeverity = Severity_Error | Severity_Warning | Severity_Info























text \<open>
  What the loop of the refresh over the static switch inputs does to one pin when no
  other pin has its name.
\<close>

definition SetFlags ::
  "(FNiagaraVariable \<Rightarrow> bool) \<Rightarrow> FNiagaraVariable list \<Rightarrow> UEdGraphPin \<Rightarrow> UEdGraphPin" where
  "SetFlags f svs p =
     fold (\<lambda>sv q. if PinName q = GetName sv then q\<lparr>bDefaultValueIsIgnored := f sv\<rparr> else q) svs p"

section \<open>Building the parameter map history\<close>

text \<open>
  The calls on the history builder, in the order in which
  \<^verbatim>\<open>BuildParameterMapHistory\<close> makes them. The inherited
  \<^verbatim>\<open>BuildParameterMapHistory\<close>, \<^verbatim>\<open>RouteParameterMapAroundMe\<close>,
  \<^verbatim>\<open>SetStaticSwitchConstants\<close> and the traversal of the callee's output node are
  calls whose own work is outside this file. \<open>RegisterParameterMapPin idx k\<close> registers
  the output pin at position \<open>k\<close> of the call site.
\<close>

datatype HistoryCall =
    Super_BuildParameterMapHistory
  | RouteParameterMapAroundMe
  | History_SetStaticSwitchConstants
  | TraceParameterMapOutputPin "PinRef option"
  | EnterFunction string
  | BeginNodeVisitation int
  | OutputNode_BuildParameterMapHistory
  | EndNodeVisitation int nat
  | ExitFunction string
  | RegisterParameterMapPin int nat

text \<open>
  What the builder returns to the node: \<open>GetIgnoreDisabled\<close>, the index that
  \<^verbatim>\<open>TraceParameterMapOutputPin\<close> gives for a traced pin, and the node index of
  \<^verbatim>\<open>BeginNodeVisitation\<close>. \<open>ParameterMapDef\<close> is
  \<^verbatim>\<open>FNiagaraTypeDefinition::GetParameterMapDef()\<close>.
\<close>

record HistoryBuilder =
  GetIgnoreDisabled :: bool
  TraceParameterMapOutputPin_Result :: "PinRef option \<Rightarrow> int"
  BeginNodeVisitation_Result :: "int \<Rightarrow> nat"
  ParameterMapDef :: FNiagaraTypeDefinition

definition FindCalleeOutputNode :: "UNiagaraGraph \<Rightarrow> UNiagaraNodeOutput option" where
  "FindCalleeOutputNode FunctionGraph =
     (case FindOutputNode FunctionGraph Function of
        Some n \<Rightarrow> Some n
      | None \<Rightarrow>
          (case FindOutputNode FunctionGraph Module of
             Some n \<Rightarrow> Some n
           | None \<Rightarrow> FindOutputNode FunctionGraph DynamicInput))"

text \<open>The traced source of the first link of a pin that has a link.\<close>

definition TraceFirstLink :: "Externals \<Rightarrow> UEdGraphPin \<Rightarrow> PinRef option" where
  "TraceFirstLink X Pin = (case LinkedTo Pin of [] \<Rightarrow> None | q # _ \<Rightarrow> TraceOutputPin X q)"

text \<open>
  The loops that fill \<^verbatim>\<open>MatchedPairs\<close>: for each pin of the callee's output node that
  is linked and has the parameter map type, each output pin of the call site (by
  position) with an equivalent variable, paired with the traced index.
\<close>

definition MatchedPairs ::
  "Externals \<Rightarrow> HistoryBuilder \<Rightarrow> UNiagaraNodeOutput \<Rightarrow> UEdGraphPin list \<Rightarrow> (nat \<times> PinRef option) list" where
  "MatchedPairs X H OutputNode OutputPins =
     concat (map (\<lambda>ChildOutputNodePin.
        if LinkedTo ChildOutputNodePin \<noteq> [] \<and> GetType (PinVar ChildOutputNodePin) = ParameterMapDef H
        then map (\<lambda>i. (i, TraceFirstLink X ChildOutputNodePin))
               (filter (\<lambda>i. IsEquivalent X (PinVar (OutputPins ! i)) (PinVar ChildOutputNodePin))
                  [0..<length OutputPins])
        else []) (GetAllPins OutputNode))"

definition ScriptIsValid :: "UNiagaraNodeFunctionCall \<Rightarrow> bool" where
  "ScriptIsValid this = (FunctionScript this \<noteq> None \<or> Signature_IsValid (Signature this))"

text \<open>
  \<^verbatim>\<open>BuildParameterMapHistory\<close>: the calls made on the builder. A call site whose
  function graph has no output node of the three usages dereferences a null pointer.
  The type of a pin is the type of its variable.
\<close>

definition BuildParameterMapHistory ::
  "Externals \<Rightarrow> HistoryBuilder \<Rightarrow> UNiagaraNodeFunctionCall \<Rightarrow> bool \<Rightarrow> error + HistoryCall list" where
  "BuildParameterMapHistory X H this bRecursive =
     (if \<not> IsNodeEnabled this \<and> GetIgnoreDisabled H
      then Inr [Super_BuildParameterMapHistory, RouteParameterMapAroundMe]
      else
        (case FunctionScript this of
           Some script \<Rightarrow>
             let FunctionGraph = NodeGraph script;
                 Traced =
                   (case GetInputPins this of
                      [] \<Rightarrow> None
                    | CandidateParamMapPin # _ \<Rightarrow>
                        if LinkedTo CandidateParamMapPin \<noteq> []
                           \<and> GetType (PinVar CandidateParamMapPin) = ParameterMapDef H
                           \<and> bRecursive
                        then Some (TraceFirstLink X CandidateParamMapPin)
                        else None);
                 ParamMapIdx =
                   (case Traced of
                      None \<Rightarrow> INDEX_NONE
                    | Some p \<Rightarrow> TraceParameterMapOutputPin_Result H p);
                 Visit = (ParamMapIdx \<noteq> INDEX_NONE)
             in (case FindCalleeOutputNode FunctionGraph of
                   None \<Rightarrow> Inl NullDereference
                 | Some OutputNode \<Rightarrow>
                     let Pairs = MatchedPairs X H OutputNode (GetOutputPins this)
                     in Inr ([Super_BuildParameterMapHistory, History_SetStaticSwitchConstants]
                          @ (case Traced of None \<Rightarrow> [] | Some p \<Rightarrow> [TraceParameterMapOutputPin p])
                          @ [EnterFunction (FunctionDisplayName this)]
                          @ (if Visit then [BeginNodeVisitation ParamMapIdx] else [])
                          @ [OutputNode_BuildParameterMapHistory]
                          @ map (\<lambda>(i, p). TraceParameterMapOutputPin p) Pairs
                          @ (if Visit
                             then [EndNodeVisitation ParamMapIdx (BeginNodeVisitation_Result H ParamMapIdx)]
                             else [])
                          @ [ExitFunction (FunctionDisplayName this)]
                          @ map (\<lambda>(i, p). RegisterParameterMapPin (TraceParameterMapOutputPin_Result H p) i)
                              Pairs))
         | None \<Rightarrow>
             if \<not> ScriptIsValid this \<or> bRequiresExecPin (Signature this)
             then Inr [Super_BuildParameterMapHistory, RouteParameterMapAroundMe]
             else Inr [Super_BuildParameterMapHistory]))"

text \<open>
  The number of function scopes that are open after a sequence of calls on the builder.
\<close>

fun OpenScopes :: "HistoryCall list \<Rightarrow> int" where
  "OpenScopes [] = 0"
| "OpenScopes (EnterFunction n # cs) = OpenScopes cs + 1"
| "OpenScopes (ExitFunction n # cs) = OpenScopes cs - 1"
| "OpenScopes (c # cs) = OpenScopes cs"

section \<open>A concrete call site\<close>

text \<open>
  A function with the inputs \<open>Velocity\<close> (required, auto-bindable), \<open>Age\<close> (required,
  not auto-bindable), \<open>Seed\<close> (not exposed, required) and \<open>Scale\<close> (optional), called
  from a graph whose spawn output has the attribute \<open>Velocity\<close>. The caller's pin
  \<open>Age\<close> ignores its default value.
\<close>

definition ex_Vector :: FNiagaraTypeDefinition where
  "ex_Vector = FNiagaraTypeDefinition ''Vector'' False"

definition ex_Float :: FNiagaraTypeDefinition where
  "ex_Float = FNiagaraTypeDefinition ''Float'' False"

definition ex_Velocity :: FNiagaraVariable where
  "ex_Velocity = FNiagaraVariable ''Velocity'' ex_Vector"

definition ex_Age :: FNiagaraVariable where
  "ex_Age = FNiagaraVariable ''Age'' ex_Float"

definition ex_Seed :: FNiagaraVariable where
  "ex_Seed = FNiagaraVariable ''Seed'' ex_Float"

definition ex_Scale :: FNiagaraVariable where
  "ex_Scale = FNiagaraVariable ''Scale'' ex_Float"

definition ex_Pin :: "FNiagaraVariable \<Rightarrow> bool \<Rightarrow> UEdGraphPin" where
  "ex_Pin v ignored =
     \<lparr>PinName = GetName v, PinVar = v, PinDisplayName = GetName v, LinkedTo = [],
      bDefaultValueIsIgnored = ignored, bNotConnectable = False\<rparr>"

definition ex_InputNode :: "FNiagaraVariable \<Rightarrow> bool \<Rightarrow> bool \<Rightarrow> bool \<Rightarrow> UNiagaraNodeInput" where
  "ex_InputNode v exposed required autobind =
     \<lparr>Input = v, IsExposed = exposed, IsRequired = required,
      ExposureOptions_bRequired = required, CanAutoBind = autobind\<rparr>"

definition ex_X :: Externals where
  "ex_X =
     \<lparr>IsEquivalent = (=), GetEngineConstants = [ex_Velocity],
      TraceGraphPin = (\<lambda>p. Some (GraphPin p)),
      CompilePin = (\<lambda>p. int (length (PinName p))),
      GetConstant = (\<lambda>v. 100 + int (length (GetName v))),
      GetUnusedFunctionInputPins = [], ValidateFunction = None, CompileInputPins = (False, [])\<rparr>"

definition ex_CallerGraph :: UNiagaraGraph where
  "ex_CallerGraph =
     \<lparr>FindOutputNode =
        (\<lambda>u. if u = ParticleSpawnScript then Some \<lparr>Outputs = [ex_Velocity], GetAllPins = []\<rparr>
             else None),
      FindInputNodes = [], FindStaticSwitchInputs = [], GetChangeID = 0,
      GetParameters_Outputs = [], AutoBoundNodes = []\<rparr>"

definition ex_FunctionGraph :: UNiagaraGraph where
  "ex_FunctionGraph =
     \<lparr>FindOutputNode = (\<lambda>u. None),
      FindInputNodes =
        [ex_InputNode ex_Velocity True True True, ex_InputNode ex_Age True True False,
         ex_InputNode ex_Seed False True False, ex_InputNode ex_Scale True False False],
      FindStaticSwitchInputs = [], GetChangeID = 1, GetParameters_Outputs = [],
      AutoBoundNodes = []\<rparr>"

definition ex_Script :: UNiagaraScript where
  "ex_Script =
     \<lparr>bDeprecated = False, bExperimental = False, ExperimentalMessage = [],
      NodeGraph = ex_FunctionGraph\<rparr>"

definition ex_Signature :: FNiagaraFunctionSignature where
  "ex_Signature =
     \<lparr>Signature_IsValid = False, Signature_Inputs = [], Signature_Outputs = [],
      bRequiresExecPin = False,
      bSoftDeprecatedFunction = False, Signature_bExperimental = False,
      Signature_ExperimentalMessage = []\<rparr>"

definition ex_CallSite :: UNiagaraNodeFunctionCall where
  "ex_CallSite =
     \<lparr>FunctionScript = Some ex_Script, FunctionScriptAssetObjectPath = ''/Game/Emit'',
      Signature = ex_Signature,
      FunctionDisplayName = ''Emit'', IsNodeEnabled = True, GetValidateDataInterfaces = True,
      GetInputPins = [ex_Pin ex_Velocity False, ex_Pin ex_Age True, ex_Pin ex_Scale True],
      GetOutputPins = [], PropagatedStaticSwitchParameters = [], CachedChangeId = 1\<rparr>"



text \<open>
  A script whose graph refers to graphs in the packages \<open>1\<close> and \<open>2\<close>, spawned into a
  graph of package \<open>2\<close> that has two nodes; the inherited check accepts and reads only.
\<close>

definition ex_SpawningNode :: SpawningNode where
  "ex_SpawningNode =
     \<lparr>Spawning_FunctionScript =
        Some \<lparr>HasScriptSource = True, ReferencedGraphs = Some [Some 1, Some 2]\<rparr>,
      Spawning_FunctionScriptAssetObjectPath = ''/Game/Emit''\<rparr>"

definition ex_TargetGraph :: UEdGraph where
  "ex_TargetGraph = \<lparr>GetOutermost = Some 2, Graph_Nodes = [''Input'', ''Output'']\<rparr>"

definition ex_Super :: "UEdGraph \<Rightarrow> string \<Rightarrow> bool \<times> string \<times> UEdGraph" where
  "ex_Super TargetGraph OutErrorMsg = (True, OutErrorMsg, TargetGraph)"














text \<open>
  A call site whose function graph has a module output node with a linked parameter map
  pin, and which has a parameter map output pin itself.
\<close>

definition ex_ParameterMap :: FNiagaraTypeDefinition where
  "ex_ParameterMap = FNiagaraTypeDefinition ''NiagaraParameterMap'' False"

definition ex_MapVar :: FNiagaraVariable where
  "ex_MapVar = FNiagaraVariable [] ex_ParameterMap"

definition ex_H :: HistoryBuilder where
  "ex_H =
     \<lparr>GetIgnoreDisabled = True,
      TraceParameterMapOutputPin_Result = (\<lambda>p. case p of Some (GraphPin n) \<Rightarrow> int n | _ \<Rightarrow> - 1),
      BeginNodeVisitation_Result = (\<lambda>i. 0),
      ParameterMapDef = ex_ParameterMap\<rparr>"

definition ex_OutputNode :: UNiagaraNodeOutput where
  "ex_OutputNode =
     \<lparr>Outputs = [], GetAllPins = [(ex_Pin ex_MapVar True)\<lparr>LinkedTo := [GraphPin 3]\<rparr>]\<rparr>"

definition ex_HistoryCallSite :: UNiagaraNodeFunctionCall where
  "ex_HistoryCallSite =
     ex_CallSite
       \<lparr>FunctionScript :=
          Some (ex_Script\<lparr>NodeGraph :=
                  ex_FunctionGraph\<lparr>FindOutputNode :=
                    (\<lambda>u. if u = Module then Some ex_OutputNode else None)\<rparr>\<rparr>),
        GetOutputPins := [ex_Pin ex_MapVar True]\<rparr>"

section \<open>Properties of the loop over the function's input nodes\<close>

lemmas ex_defs = ex_CallSite_def ex_Script_def ex_FunctionGraph_def ex_CallerGraph_def ex_X_def
  ex_InputNode_def ex_Pin_def ex_Velocity_def ex_Age_def ex_Seed_def ex_Scale_def ex_Vector_def
  ex_Float_def ex_Signature_def

lemmas Compile_defs = Compile_def EnterScript_def InitialState_def CompileFunctionInput_def
  FindCallerPin_def CallerLinkedTo_def FindAutoBoundInput_def AutoBind_def Add_def Call_def
  INDEX_NONE_def


lemma FindByPredicate_map:
  "FindByPredicate (\<lambda>x. P (f x)) xs = FindByPredicate P (map f xs)"
  by (induction xs) auto

lemma FindByPredicate_Some:
  "FindByPredicate P xs = Some i \<Longrightarrow> i < length xs \<and> P (xs ! i) \<and> (\<forall>j<i. \<not> P (xs ! j))"
proof (induction xs arbitrary: i)
  case Nil
  then show ?case by simp
next
  case (Cons x xs)
  show ?case
  proof (cases "P x")
    case True
    with Cons.prems show ?thesis by simp
  next
    case False
    with Cons.prems obtain k where k: "FindByPredicate P xs = Some k" "i = Suc k"
      by auto
    from Cons.IH[OF k(1)] False k(2) show ?thesis
      by (auto simp: less_Suc_eq_0_disj)
  qed
qed

lemma FindCallerPin_PinVar:
  "map PinVar ps = map PinVar qs \<Longrightarrow> FindCallerPin X ps f = FindCallerPin X qs f"
proof -
  assume eq: "map PinVar ps = map PinVar qs"
  have "FindCallerPin X zs f = FindByPredicate (\<lambda>v. IsEquivalent X v (Input f)) (map PinVar zs)" for zs
    unfolding FindCallerPin_def
    by (rule FindByPredicate_map[of "\<lambda>v. IsEquivalent X v (Input f)" PinVar])
  then show ?thesis using eq by simp
qed

lemma FindCallerPin_less:
  "FindCallerPin X ps f = Some i \<Longrightarrow> i < length ps"
  unfolding FindCallerPin_def by (drule FindByPredicate_Some) simp

lemma AutoBind_PinVar:
  "i < length (CallerInputPins st) \<Longrightarrow>
   map PinVar (CallerInputPins (AutoBind i u st)) = map PinVar (CallerInputPins st)"
  by (simp add: AutoBind_def Let_def map_update list_update_same_conv)

lemma AutoBind_fields [simp]:
  "Inputs (AutoBind i u st) = Inputs st"
  "Calls (AutoBind i u st) = Calls st"
  "bError (AutoBind i u st) = bError st"
  "length (CallerInputPins (AutoBind i u st)) = length (CallerInputPins st)"
  by (simp_all add: AutoBind_def Let_def)

text \<open>One iteration: what it leaves unchanged and the one entry it adds.\<close>

lemma CompileFunctionInput_step:
  assumes "CompileFunctionInput X G f st = Inr st'"
  shows "map PinVar (CallerInputPins st') = map PinVar (CallerInputPins st)"
    and "\<exists>h. Inputs st' = Inputs st @ [h] \<and>
             (h = INDEX_NONE \<or> h = GetConstant X (Input f) \<or>
              (\<exists>i. FindCallerPin X (CallerInputPins st) f = Some i \<and>
                   h = CompilePin X (CallerInputPins st' ! i)))"
    and "\<exists>cs. Calls st' = Calls st @ cs"
    and "bError st \<longrightarrow> bError st'"
  using assms
  by (auto simp: CompileFunctionInput_def Add_def Call_def Let_def AutoBind_PinVar
      dest: FindCallerPin_less split: option.splits sum.splits if_splits prod.splits)

lemma EnterScript_fields [simp]:
  "CallerInputPins (EnterScript X G this script) = GetInputPins this"
  "Inputs (EnterScript X G this script) = []"
  "NewNodes (EnterScript X G this script) = AutoBoundNodes G"
  "bError (EnterScript X G this script) = False"
  by (simp_all add: EnterScript_def InitialState_def Call_def Let_def)

lemma Compile_script:
  assumes "FunctionScript this = Some script"
      and "CompileFunctionInputs X G (FindInputNodes (NodeGraph script)) (EnterScript X G this script) = Inr s"
  shows "\<exists>st. Compile X G this = Inr st \<and> Inputs st = Inputs s \<and> bError st = bError s
           \<and> CallerInputPins st = CallerInputPins s \<and> NewNodes st = NewNodes s
           \<and> Calls st = Calls s @ [SetStaticSwitchConstants, ExitFunctionCallNode]
                 @ (if bError s then [] else [FunctionCall (Inputs s)])"
  using assms by (simp add: Compile_def Call_def)









section \<open>Unresolved call sites\<close>

text \<open>
  Claim C8. Compiling a call site that has neither a function script nor a valid
  signature reports the unknown-function error and makes no other call on the
  translator: \<^verbatim>\<open>FunctionCall\<close> is never invoked and no input is compiled.
\<close>

theorem Compile_unresolved_callable:
  assumes "FunctionScript this = None" and "\<not> Signature_IsValid (Signature this)"
  shows "\<exists>st. Compile X CallerGraph this = Inr st \<and> bError st \<and> Inputs st = []
           \<and> Calls st = [Error (UnknownFunction (FunctionDisplayName this)) None]
           \<and> (\<forall>hs. FunctionCall hs \<notin> set (Calls st))"
  using assms by (simp add: Compile_def InitialState_def Call_def)

theorem Compile_unresolved_callable_witness:
  "\<exists>st. Compile ex_X ex_CallerGraph (ex_CallSite\<lparr>FunctionScript := None\<rparr>) = Inr st \<and> bError st
     \<and> Calls st = [Error (UnknownFunction ''Emit'') None]"
proof -
  have h1: "FunctionScript (ex_CallSite\<lparr>FunctionScript := None\<rparr>) = None"
    by simp
  have h2: "\<not> Signature_IsValid (Signature (ex_CallSite\<lparr>FunctionScript := None\<rparr>))"
    by (simp add: ex_CallSite_def ex_Signature_def)
  have n: "FunctionDisplayName (ex_CallSite\<lparr>FunctionScript := None\<rparr>) = ''Emit''"
    by (simp add: ex_CallSite_def)
  from Compile_unresolved_callable[OF h1 h2, of ex_X ex_CallerGraph] show ?thesis
    unfolding n by blast
qed

section \<open>Declared inputs without a caller pin\<close>

text \<open>
  Claim C2. In any state of the loop of \<^verbatim>\<open>Compile\<close>, for a declared input that no
  caller pin matches (by \<^verbatim>\<open>IsEquivalent\<close>, which compares name and type): an exposed
  input reports the stale-call-site error; an input that is not exposed but marked
  required gets the compiled constant of its variable and no error is reported; any
  other input gets \<open>INDEX_NONE\<close> with no error. The loop goes on with the remaining
  inputs.
\<close>

theorem CompileFunctionInput_no_caller_pin:
  assumes "FindCallerPin X (CallerInputPins st) f = None"
  shows "\<exists>st'. CompileFunctionInput X G f st = Inr st'
           \<and> CompileFunctionInputs X G (f # rest) st = CompileFunctionInputs X G rest st'
           \<and> CallerInputPins st' = CallerInputPins st \<and> NewNodes st' = NewNodes st
           \<and> (if IsExposed f
               then Calls st' = Calls st @ [Error StaleFunctionCallError None] \<and> bError st'
                    \<and> Inputs st' = Inputs st @ [INDEX_NONE]
               else if ExposureOptions_bRequired f
               then Calls st' = Calls st \<and> bError st' = bError st
                    \<and> Inputs st' = Inputs st @ [GetConstant X (Input f)]
               else Calls st' = Calls st \<and> bError st' = bError st
                    \<and> Inputs st' = Inputs st @ [INDEX_NONE])"
  using assms
  by (simp add: CompileFunctionInput_def Add_def Call_def)

theorem CompileFunctionInput_no_caller_pin_witness:
  "\<exists>st'. CompileFunctionInput ex_X ex_CallerGraph (ex_InputNode ex_Seed False True False)
            (EnterScript ex_X ex_CallerGraph ex_CallSite ex_Script) = Inr st'
     \<and> Inputs st' = [104] \<and> Calls st' = [EnterFunctionCallNode []] \<and> \<not> bError st'"
proof -
  have h: "FindCallerPin ex_X (CallerInputPins (EnterScript ex_X ex_CallerGraph ex_CallSite ex_Script))
             (ex_InputNode ex_Seed False True False) = None"
    by (simp add: ex_defs Compile_defs)
  have v: "GetConstant ex_X (Input (ex_InputNode ex_Seed False True False)) = 104"
    by (simp add: ex_defs)
  have e: "Inputs (EnterScript ex_X ex_CallerGraph ex_CallSite ex_Script) = []"
    "Calls (EnterScript ex_X ex_CallerGraph ex_CallSite ex_Script) = [EnterFunctionCallNode []]"
    "\<not> bError (EnterScript ex_X ex_CallerGraph ex_CallSite ex_Script)"
    by (simp_all add: ex_defs Compile_defs)
  from CompileFunctionInput_no_caller_pin[OF h, of ex_CallerGraph "[]"] show ?thesis
    using v e by (auto simp: ex_InputNode_def)
qed

section \<open>The order of auto-binding\<close>

text \<open>
  Claim C3. For an exposed input that can auto-bind and whose pin has no link,
  \<^verbatim>\<open>FindAutoBoundInput\<close> looks at the outputs of the caller's spawn output node, or of
  its update output node when there is no spawn output node. The first output
  equivalent to the pin's variable is bound as \<open>Attribute\<close>, whatever the engine
  constants hold. Only when the chosen output node has no equivalent output (or there
  is no such node) are the engine constants consulted: the pin's variable is bound as
  \<open>SystemConstant\<close> when they contain it, and the search fails otherwise.
\<close>

theorem FindAutoBoundInput_attribute_first:
  assumes "IsExposed InputNode" and "LinkedTo Pin = []" and "CanAutoBind InputNode"
  shows "(\<forall>n a. FindOutputNode G ParticleSpawnScript = Some n
              \<and> find (Eq (PinVar Pin)) (Outputs n) = Some a
            \<longrightarrow> FindAutoBoundInput Eq Consts G InputNode Pin = Inr (Some (a, Attribute))
                \<and> Eq (PinVar Pin) a)
       \<and> (\<forall>n a. FindOutputNode G ParticleSpawnScript = None
              \<and> FindOutputNode G ParticleUpdateScript = Some n
              \<and> find (Eq (PinVar Pin)) (Outputs n) = Some a
            \<longrightarrow> FindAutoBoundInput Eq Consts G InputNode Pin = Inr (Some (a, Attribute))
                \<and> Eq (PinVar Pin) a)
       \<and> ((case FindOutputNode G ParticleSpawnScript of
              Some n \<Rightarrow> find (Eq (PinVar Pin)) (Outputs n) = None
            | None \<Rightarrow> (case FindOutputNode G ParticleUpdateScript of
                          Some n \<Rightarrow> find (Eq (PinVar Pin)) (Outputs n) = None
                        | None \<Rightarrow> True))
            \<longrightarrow> FindAutoBoundInput Eq Consts G InputNode Pin =
                  Inr (if PinVar Pin \<in> set Consts then Some (PinVar Pin, SystemConstant) else None))"
proof -
  have P: "\<And>xs a. find (Eq (PinVar Pin)) xs = Some a \<Longrightarrow> Eq (PinVar Pin) a"
    by (auto simp: find_Some_iff)
  show ?thesis
    using assms P
    by (auto simp: FindAutoBoundInput_def split: option.splits)
qed

text \<open>
  In the concrete caller graph \<open>Velocity\<close> is both an attribute of the spawn output and
  an engine constant: it is bound as the attribute.
\<close>

theorem FindAutoBoundInput_attribute_first_witness:
  "ex_Velocity \<in> set (GetEngineConstants ex_X)
   \<and> FindAutoBoundInput (=) (GetEngineConstants ex_X) ex_CallerGraph
         (ex_InputNode ex_Velocity True True True) (ex_Pin ex_Velocity False)
       = Inr (Some (ex_Velocity, Attribute))"
proof -
  have h1: "IsExposed (ex_InputNode ex_Velocity True True True)"
    and h3: "CanAutoBind (ex_InputNode ex_Velocity True True True)"
    by (simp_all add: ex_InputNode_def)
  have h2: "LinkedTo (ex_Pin ex_Velocity False) = []"
    by (simp add: ex_Pin_def)
  have n: "FindOutputNode ex_CallerGraph ParticleSpawnScript
             = Some \<lparr>Outputs = [ex_Velocity], GetAllPins = []\<rparr>"
    by (simp add: ex_CallerGraph_def)
  have a: "find ((=) (PinVar (ex_Pin ex_Velocity False)))
             (Outputs \<lparr>Outputs = [ex_Velocity], GetAllPins = []\<rparr>) = Some ex_Velocity"
    by (simp add: ex_Pin_def)
  have c: "ex_Velocity \<in> set (GetEngineConstants ex_X)"
    by (simp add: ex_X_def)
  from FindAutoBoundInput_attribute_first[OF h1 h2 h3, of ex_CallerGraph "(=)" "GetEngineConstants ex_X"]
  show ?thesis
    using n a c by blast
qed

section \<open>One entry per declared input\<close>



section \<open>Required inputs that stay unbound\<close>



section \<open>Compiling twice\<close>

lemma FindAutoBoundInput_CallerGraph:
  "FindOutputNode G' = FindOutputNode G \<Longrightarrow>
   FindAutoBoundInput Eq Consts G' f p = FindAutoBoundInput Eq Consts G f p"
  by (simp add: FindAutoBoundInput_def)

lemma CompileFunctionInput_CallerGraph:
  assumes "FindOutputNode G' = FindOutputNode G"
  shows "CompileFunctionInput X G' f st = CompileFunctionInput X G f st"
proof -
  have eq: "FindAutoBoundInput Eq Consts G' f p = FindAutoBoundInput Eq Consts G f p" for Eq Consts p
    by (rule FindAutoBoundInput_CallerGraph[OF assms])
  show ?thesis
    unfolding CompileFunctionInput_def eq by (rule refl)
qed

lemma CompileFunctionInputs_CallerGraph:
  assumes "FindOutputNode G' = FindOutputNode G"
  shows "CompileFunctionInputs X G' fs st = CompileFunctionInputs X G fs st"
proof (induction fs arbitrary: st)
  case Nil
  then show ?case by simp
next
  case (Cons f fs)
  show ?case
    unfolding CompileFunctionInputs.simps CompileFunctionInput_CallerGraph[OF assms, of X f st]
    using Cons.IH by (simp split: sum.splits)
qed

text \<open>An iteration changes no caller pin but the one that matches its input.\<close>

lemma CompileFunctionInput_frame:
  assumes "CompileFunctionInput X G f st = Inr st'"
      and "FindCallerPin X (CallerInputPins st) f \<noteq> Some i"
  shows "CallerInputPins st' ! i = CallerInputPins st ! i"
  using assms
  by (auto simp: CompileFunctionInput_def Add_def Call_def Let_def AutoBind_def
      split: option.splits sum.splits if_splits prod.splits)

lemma CompileFunctionInputs_frame:
  assumes "CompileFunctionInputs X G fs st = Inr st'"
      and "\<forall>g\<in>set fs. FindCallerPin X (CallerInputPins st) g \<noteq> Some i"
  shows "CallerInputPins st' ! i = CallerInputPins st ! i"
  using assms
proof (induction fs arbitrary: st)
  case Nil
  then show ?case by simp
next
  case (Cons f fs)
  from Cons.prems(1) obtain s1 where s1:
    "CompileFunctionInput X G f st = Inr s1" "CompileFunctionInputs X G fs s1 = Inr st'"
    by (auto split: sum.splits)
  have pv: "map PinVar (CallerInputPins s1) = map PinVar (CallerInputPins st)"
    by (rule CompileFunctionInput_step(1)[OF s1(1)])
  have "\<forall>g\<in>set fs. FindCallerPin X (CallerInputPins s1) g \<noteq> Some i"
    using Cons.prems(2) FindCallerPin_PinVar[OF pv] by simp
  from Cons.IH[OF s1(2) this] have "CallerInputPins st' ! i = CallerInputPins s1 ! i" .
  moreover have "CallerInputPins s1 ! i = CallerInputPins st ! i"
    using CompileFunctionInput_frame[OF s1(1)] Cons.prems(2) by simp
  ultimately show ?case by simp
qed

lemma CompileFunctionInputs_PinVar:
  assumes "CompileFunctionInputs X G fs st = Inr st'"
  shows "map PinVar (CallerInputPins st') = map PinVar (CallerInputPins st)"
  using assms
proof (induction fs arbitrary: st)
  case Nil
  then show ?case by simp
next
  case (Cons f fs)
  from Cons.prems obtain s1 where s1:
    "CompileFunctionInput X G f st = Inr s1" "CompileFunctionInputs X G fs s1 = Inr st'"
    by (auto split: sum.splits)
  show ?case
    using Cons.IH[OF s1(2)] CompileFunctionInput_step(1)[OF s1(1)] by simp
qed

text \<open>
  An iteration that has run in the state \<open>st\<close> runs again, with the same entry, the same
  calls and no change of the caller graph, in any state that has the same inputs, calls
  and error flag and in which the caller pin of the input is as the iteration left it.
\<close>

lemma CompileFunctionInput_again:
  assumes run: "CompileFunctionInput X G f st = Inr st'"
      and vars: "map PinVar Pins = map PinVar (CallerInputPins st)"
      and pin: "\<And>i. FindCallerPin X (CallerInputPins st) f = Some i \<Longrightarrow>
                  Pins ! i = CallerInputPins st' ! i"
  shows "CompileFunctionInput X G f (st\<lparr>CallerInputPins := Pins, NewNodes := Nodes\<rparr>) =
           Inr (st'\<lparr>CallerInputPins := Pins, NewNodes := Nodes\<rparr>)"
proof (cases "FindCallerPin X (CallerInputPins st) f")
  case None
  then have "FindCallerPin X Pins f = None"
    using FindCallerPin_PinVar[OF vars] by simp
  then show ?thesis
    using run None by (auto simp: CompileFunctionInput_def Add_def Call_def split: if_splits)
next
  case (Some i)
  then have f2: "FindCallerPin X Pins f = Some i"
    using FindCallerPin_PinVar[OF vars] by simp
  have i: "i < length (CallerInputPins st)"
    using Some by (rule FindCallerPin_less)
  note p = pin[OF Some]
  show ?thesis
  proof (cases "CallerLinkedTo X (CallerInputPins st ! i)")
    case (Some q)
    then show ?thesis
      using run \<open>FindCallerPin X (CallerInputPins st) f = Some i\<close> f2 p
      by (auto simp: CompileFunctionInput_def Add_def Call_def Let_def)
  next
    case None
    show ?thesis
    proof (cases "FindAutoBoundInput (IsEquivalent X) (GetEngineConstants X) G f (CallerInputPins st ! i)")
      case (Inl e)
      then show ?thesis
        using run \<open>FindCallerPin X (CallerInputPins st) f = Some i\<close> None
        by (simp add: CompileFunctionInput_def Let_def)
    next
      case (Inr r)
      show ?thesis
      proof (cases r)
        case None2: None
        have "st' = (if IsRequired f
                     then if bDefaultValueIsIgnored (CallerInputPins st ! i)
                          then Add INDEX_NONE
                                ((Call (Error (RequiredInputUnboundErrorFmt
                                   (PinDisplayName (CallerInputPins st ! i))) (Some i)) st)
                                   \<lparr>bError := True\<rparr>)
                          else Add (CompilePin X (CallerInputPins st ! i)) st
                     else Add INDEX_NONE st)"
          using run \<open>FindCallerPin X (CallerInputPins st) f = Some i\<close> None Inr None2
          by (auto simp: CompileFunctionInput_def Let_def split: if_splits)
        then have same: "CallerInputPins st' = CallerInputPins st"
          by (simp add: Add_def Call_def)
        then have pi: "Pins ! i = CallerInputPins st ! i" using p by simp
        show ?thesis
          using run \<open>FindCallerPin X (CallerInputPins st) f = Some i\<close> f2 None Inr None2 pi
          by (auto simp: CompileFunctionInput_def Add_def Call_def Let_def)
      next
        case (Some vu)
        obtain v u where vu: "vu = (v, u)" by (cases vu)
        have st': "st' = Add (CompilePin X (CallerInputPins (AutoBind i u st) ! i)) (AutoBind i u st)"
          using run \<open>FindCallerPin X (CallerInputPins st) f = Some i\<close> None Inr Some vu
          by (simp add: CompileFunctionInput_def Let_def)
        have pi: "Pins ! i =
                    (CallerInputPins st ! i)\<lparr>LinkedTo := [AutoBoundOutput (length (NewNodes st))]\<rparr>"
          using p i by (simp add: st' Add_def AutoBind_def Let_def)
        have linked: "CallerLinkedTo X (Pins ! i) = Some (AutoBoundOutput (length (NewNodes st)))"
          by (simp add: pi CallerLinkedTo_def)
        have entry: "CompilePin X (CallerInputPins (AutoBind i u st) ! i) = CompilePin X (Pins ! i)"
          using i by (simp add: pi AutoBind_def Let_def)
        show ?thesis
          using f2 linked i
          by (simp add: CompileFunctionInput_def Let_def st' pi Add_def AutoBind_def)
      qed
    qed
  qed
qed

lemma map_filter_set:
  "set (List.map_filter f xs) = {y. \<exists>x\<in>set xs. f x = Some y}"
proof (induction xs)
  case Nil
  then show ?case by (simp add: List.map_filter_def)
next
  case (Cons x xs)
  then show ?case by (auto split: option.splits)
qed

text \<open>
  The loop, run again on the pins and nodes that it has left, ends in the state in which
  it ended.
\<close>

lemma CompileFunctionInputs_again:
  assumes "CompileFunctionInputs X G fs st = Inr st'"
      and "distinct (List.map_filter (FindCallerPin X (CallerInputPins st)) fs)"
  shows "CompileFunctionInputs X G fs
           (st\<lparr>CallerInputPins := CallerInputPins st', NewNodes := NewNodes st'\<rparr>) = Inr st'"
  using assms
proof (induction fs arbitrary: st)
  case Nil
  then show ?case by simp
next
  case (Cons f fs)
  from Cons.prems(1) obtain s1 where s1:
    "CompileFunctionInput X G f st = Inr s1" "CompileFunctionInputs X G fs s1 = Inr st'"
    by (auto split: sum.splits)
  have pv1: "map PinVar (CallerInputPins s1) = map PinVar (CallerInputPins st)"
    by (rule CompileFunctionInput_step(1)[OF s1(1)])
  have pv': "map PinVar (CallerInputPins st') = map PinVar (CallerInputPins st)"
    using CompileFunctionInputs_PinVar[OF s1(2)] pv1 by simp
  have same: "FindCallerPin X (CallerInputPins s1) g = FindCallerPin X (CallerInputPins st) g" for g
    by (rule FindCallerPin_PinVar[OF pv1])
  have d: "distinct (List.map_filter (FindCallerPin X (CallerInputPins s1)) fs)"
  proof -
    have "List.map_filter (FindCallerPin X (CallerInputPins s1)) fs
            = List.map_filter (FindCallerPin X (CallerInputPins st)) fs"
      using same by (simp add: List.map_filter_def)
    then show ?thesis
      using Cons.prems(2) by (auto split: option.splits)
  qed
  have pin: "CallerInputPins st' ! i = CallerInputPins s1 ! i"
    if m: "FindCallerPin X (CallerInputPins st) f = Some i" for i
  proof (rule CompileFunctionInputs_frame[OF s1(2)])
    have "i \<notin> set (List.map_filter (FindCallerPin X (CallerInputPins st)) fs)"
      using Cons.prems(2) m by simp
    then show "\<forall>g\<in>set fs. FindCallerPin X (CallerInputPins s1) g \<noteq> Some i"
      using same by (auto simp: map_filter_set)
  qed
  have step: "CompileFunctionInput X G f
                (st\<lparr>CallerInputPins := CallerInputPins st', NewNodes := NewNodes st'\<rparr>) =
              Inr (s1\<lparr>CallerInputPins := CallerInputPins st', NewNodes := NewNodes st'\<rparr>)"
    by (rule CompileFunctionInput_again[OF s1(1) pv' pin])
  show ?case
    using step Cons.IH[OF s1(2) d] by simp
qed

text \<open>
  Claim C4. Take a call site with a function script in which no caller pin matches two
  declared inputs (\<^verbatim>\<open>FindInputNodes\<close> filters duplicates, and the pins mirror the
  declared inputs), and let a first \<^verbatim>\<open>Compile\<close> return. A second \<^verbatim>\<open>Compile\<close> of
  the call site, on the pins and the caller graph as the first one left them, returns
  the very same result: the same array \<open>Inputs\<close>, the same calls on the translator, the
  same error flag, the same links on the pins and the same list of created input nodes,
  so no second node and no second link. The translator's \<^verbatim>\<open>CompilePin\<close> and
  \<^verbatim>\<open>GetConstant\<close> are taken to be functions of the pin and of the variable. Moreover,
  in any state, resolving an input whose caller pin is linked to the output pin of a
  created input node compiles the pin and changes neither the pins nor the nodes.
\<close>

theorem Compile_idempotent:
  assumes script: "FunctionScript this = Some script"
      and first: "Compile X G this = Inr st"
      and once: "distinct (List.map_filter (FindCallerPin X (GetInputPins this))
                             (FindInputNodes (NodeGraph script)))"
  shows "Compile X (G\<lparr>AutoBoundNodes := NewNodes st\<rparr>) (this\<lparr>GetInputPins := CallerInputPins st\<rparr>)
           = Inr st
       \<and> (\<forall>f s i k. FindCallerPin X (CallerInputPins s) f = Some i
              \<and> LinkedTo (CallerInputPins s ! i) = [AutoBoundOutput k]
            \<longrightarrow> CompileFunctionInput X G f s = Inr (Add (CompilePin X (CallerInputPins s ! i)) s)
                \<and> CallerInputPins (Add (CompilePin X (CallerInputPins s ! i)) s) = CallerInputPins s
                \<and> NewNodes (Add (CompilePin X (CallerInputPins s ! i)) s) = NewNodes s)"
proof
  let ?fs = "FindInputNodes (NodeGraph script)"
  let ?E = "EnterScript X G this script"
  let ?G' = "G\<lparr>AutoBoundNodes := NewNodes st\<rparr>"
  let ?this' = "this\<lparr>GetInputPins := CallerInputPins st\<rparr>"
  from first script obtain s' where s': "CompileFunctionInputs X G ?fs ?E = Inr s'"
    by (auto simp: Compile_def split: sum.splits)
  from Compile_script[OF script s'] first have st:
    "CallerInputPins st = CallerInputPins s'" "NewNodes st = NewNodes s'"
    by auto
  have E': "EnterScript X ?G' ?this' script =
              ?E\<lparr>CallerInputPins := CallerInputPins s', NewNodes := NewNodes s'\<rparr>"
    by (simp add: EnterScript_def InitialState_def Call_def Let_def st)
  have d: "distinct (List.map_filter (FindCallerPin X (CallerInputPins ?E)) ?fs)"
    using once by simp
  have "CompileFunctionInputs X ?G' ?fs (EnterScript X ?G' ?this' script) =
          CompileFunctionInputs X G ?fs (EnterScript X ?G' ?this' script)"
    by (rule CompileFunctionInputs_CallerGraph) simp
  also have "\<dots> = Inr s'"
    unfolding E' by (rule CompileFunctionInputs_again[OF s' d])
  finally have again: "CompileFunctionInputs X ?G' ?fs (EnterScript X ?G' ?this' script) = Inr s'" .
  have "Compile X ?G' ?this' = Compile X G this"
    using again s' script by (simp add: Compile_def)
  then show "Compile X ?G' ?this' = Inr st"
    using first by simp
next
  show "\<forall>f s i k. FindCallerPin X (CallerInputPins s) f = Some i
              \<and> LinkedTo (CallerInputPins s ! i) = [AutoBoundOutput k]
            \<longrightarrow> CompileFunctionInput X G f s = Inr (Add (CompilePin X (CallerInputPins s ! i)) s)
                \<and> CallerInputPins (Add (CompilePin X (CallerInputPins s ! i)) s) = CallerInputPins s
                \<and> NewNodes (Add (CompilePin X (CallerInputPins s ! i)) s) = NewNodes s"
    by (simp add: CompileFunctionInput_def CallerLinkedTo_def Add_def)
qed

text \<open>
  The concrete call site: the first compile creates the input node for \<open>Velocity\<close>, and
  the second compile returns the same result with that one node.
\<close>

theorem Compile_idempotent_witness:
  "\<exists>st. Compile ex_X ex_CallerGraph ex_CallSite = Inr st
     \<and> length (NewNodes st) = 1
     \<and> LinkedTo (CallerInputPins st ! 0) = [AutoBoundOutput 0]
     \<and> Compile ex_X (ex_CallerGraph\<lparr>AutoBoundNodes := NewNodes st\<rparr>)
           (ex_CallSite\<lparr>GetInputPins := CallerInputPins st\<rparr>) = Inr st"
proof -
  define st where "st = projr (Compile ex_X ex_CallerGraph ex_CallSite)"
  have h1: "FunctionScript ex_CallSite = Some ex_Script"
    by (simp add: ex_CallSite_def)
  have h2: "Compile ex_X ex_CallerGraph ex_CallSite = Inr st"
    unfolding st_def by (simp add: ex_defs Compile_defs)
  have h3: "distinct (List.map_filter (FindCallerPin ex_X (GetInputPins ex_CallSite))
                        (FindInputNodes (NodeGraph ex_Script)))"
    by (simp add: ex_defs FindCallerPin_def List.map_filter_def)
  have n: "length (NewNodes st) = 1" "LinkedTo (CallerInputPins st ! 0) = [AutoBoundOutput 0]"
    unfolding st_def by (simp_all add: ex_defs Compile_defs)
  from Compile_idempotent[OF h1 h2 h3] h2 n show ?thesis
    by blast
qed

section \<open>Rejecting a cycle\<close>

lemma CycleLoop_rejects:
  "Some p \<in> set gs \<Longrightarrow> CycleLoop (Some p) gs msg = (False, CycleErrorMsg)"
  by (induction gs) auto

text \<open>
  Claim C5. Take the target graph and the message as the inherited check leaves them.
  Whenever the package of the target graph is the package of one of the graphs that the
  spawned script's graph refers to (\<^verbatim>\<open>GetAllReferencedGraphs\<close>, which starts with the
  script's own graph), \<^verbatim>\<open>CanAddToGraph\<close> returns \<open>false\<close>. The message is the cycle
  diagnostic when the inherited check has accepted the node, and the message of the
  inherited check when that has rejected it already. The target graph is returned as
  the inherited check left it: the code of this file writes nothing to it, no node is
  added, and after an inherited check that only reads the graph it is the graph that
  was passed in.
\<close>

theorem CanAddToGraph_rejects_cycle:
  assumes super: "Super TargetGraph OutErrorMsg = (SuperResult, OutErrorMsg', TargetGraph')"
      and package: "GetOutermost TargetGraph' = Some p"
      and cycle: "Some p \<in> set (FunctionGraphs GetAssetByObjectPath this)"
  shows "CanAddToGraph Super GetAssetByObjectPath this TargetGraph OutErrorMsg
           = (False, if SuperResult then CycleErrorMsg else OutErrorMsg', TargetGraph')
       \<and> (TargetGraph' = TargetGraph \<longrightarrow>
            snd (snd (CanAddToGraph Super GetAssetByObjectPath this TargetGraph OutErrorMsg))
              = TargetGraph)"
  using assms by (simp add: CanAddToGraph_def Let_def CycleLoop_rejects)

theorem CanAddToGraph_rejects_cycle_witness:
  "CanAddToGraph ex_Super (\<lambda>path. None) ex_SpawningNode ex_TargetGraph []
     = (False, CycleErrorMsg, ex_TargetGraph)"
proof -
  have s: "ex_Super ex_TargetGraph [] = (True, [], ex_TargetGraph)"
    by (simp add: ex_Super_def)
  have p: "GetOutermost ex_TargetGraph = Some 2"
    by (simp add: ex_TargetGraph_def)
  have h: "Some 2 \<in> set (FunctionGraphs (\<lambda>path. None) ex_SpawningNode)"
    by (simp add: FunctionGraphs_def SpawningFunctionScript_def ex_SpawningNode_def)
  from CanAddToGraph_rejects_cycle[where Super = ex_Super and TargetGraph = ex_TargetGraph
      and OutErrorMsg = "[]" and TargetGraph' = ex_TargetGraph, OF s p h]
  show ?thesis
    by simp
qed

section \<open>The aggregated dependencies\<close>








section \<open>Stale propagated switches\<close>






lemma SetFlags_fields [simp]:
  "PinName (SetFlags f svs p) = PinName p"
  "PinVar (SetFlags f svs p) = PinVar p"
  "bNotConnectable (SetFlags f svs p) = bNotConnectable p"
  unfolding SetFlags_def by (induction svs arbitrary: p) auto



















section \<open>Registration after the function scope\<close>

lemma OpenScopes_append: "OpenScopes (xs @ ys) = OpenScopes xs + OpenScopes ys"
  by (induction xs rule: OpenScopes.induct) auto

lemma OpenScopes_Register:
  "OpenScopes (map (\<lambda>(i, p). RegisterParameterMapPin (f p) i) ps) = 0"
  by (induction ps) auto

lemma OpenScopes_Trace:
  "OpenScopes (map (\<lambda>(i, p). TraceParameterMapOutputPin p) ps) = 0"
  by (induction ps) auto

lemma Register_after_Exit:
  assumes pre: "OpenScopes pre = 1" "\<forall>c\<in>set pre. \<forall>idx pin. c \<noteq> RegisterParameterMapPin idx pin"
      and k: "k < length (pre @ ExitFunction n # map (\<lambda>(i, p). RegisterParameterMapPin (f p) i) ps)"
      and r: "(pre @ ExitFunction n # map (\<lambda>(i, p). RegisterParameterMapPin (f p) i) ps) ! k
                = RegisterParameterMapPin idx pin"
  shows "OpenScopes (take k (pre @ ExitFunction n # map (\<lambda>(i, p). RegisterParameterMapPin (f p) i) ps)) = 0
       \<and> ExitFunction n \<in> set (take k (pre @ ExitFunction n # map (\<lambda>(i, p). RegisterParameterMapPin (f p) i) ps))"
proof -
  let ?regs = "map (\<lambda>(i, p). RegisterParameterMapPin (f p) i) ps"
  have "\<not> k < length pre"
    using pre(2) r by (auto simp: nth_append)
  moreover have "k \<noteq> length pre"
    using r by (auto simp: nth_append)
  ultimately obtain j where j: "k = length pre + Suc j"
    by (metis less_imp_Suc_add linorder_neqE_nat add_Suc_right)
  have t: "take k (pre @ ExitFunction n # ?regs) = pre @ ExitFunction n # take j ?regs"
    using j by simp
  have "take j ?regs = map (\<lambda>(i, p). RegisterParameterMapPin (f p) i) (take j ps)"
    by (simp add: take_map)
  then have "OpenScopes (take j ?regs) = 0"
    using OpenScopes_Register[of f "take j ps"] by simp
  then show ?thesis
    unfolding t using pre(1) by (simp add: OpenScopes_append)
qed

text \<open>
  Claim C9. For a call site with a function script, in every sequence of calls that
  \<^verbatim>\<open>BuildParameterMapHistory\<close> makes on the builder, a call of
  \<^verbatim>\<open>RegisterParameterMapPin\<close> comes after \<^verbatim>\<open>ExitFunction\<close> and at a moment when no
  function scope is open. When the node is not elided and the function graph has an
  output node, the calls are a prefix that enters the function once and registers
  nothing, then \<^verbatim>\<open>ExitFunction\<close>, then one registration for each matched pair, in
  the order of \<^verbatim>\<open>MatchedPairs\<close>. A matched pair is an output pin of the call site
  together with a linked parameter map pin of the callee's output node whose variable is
  equivalent to the output pin's. The traversal fails only when the function graph has
  no output node.
\<close>

theorem BuildParameterMapHistory_registers_after_exit:
  assumes script: "FunctionScript this = Some script"
  shows "((case BuildParameterMapHistory X H this bRecursive of
            Inl e \<Rightarrow> FindCalleeOutputNode (NodeGraph script) = None
          | Inr calls \<Rightarrow>
              (\<forall>k<length calls. \<forall>idx pin. calls ! k = RegisterParameterMapPin idx pin \<longrightarrow>
                 OpenScopes (take k calls) = 0
                 \<and> ExitFunction (FunctionDisplayName this) \<in> set (take k calls)))
       \<and> (\<forall>OutputNode. (IsNodeEnabled this \<or> \<not> GetIgnoreDisabled H)
              \<and> FindCalleeOutputNode (NodeGraph script) = Some OutputNode \<longrightarrow>
            (\<exists>pre. BuildParameterMapHistory X H this bRecursive =
                    Inr (pre @ ExitFunction (FunctionDisplayName this)
                         # map (\<lambda>(i, p). RegisterParameterMapPin (TraceParameterMapOutputPin_Result H p) i)
                             (MatchedPairs X H OutputNode (GetOutputPins this)))
                 \<and> EnterFunction (FunctionDisplayName this) \<in> set pre
                 \<and> OpenScopes pre = 1
                 \<and> (\<forall>c\<in>set pre. \<forall>idx pin. c \<noteq> RegisterParameterMapPin idx pin))))
       \<and> (\<forall>OutputNode i p. (i, p) \<in> set (MatchedPairs X H OutputNode (GetOutputPins this)) \<longrightarrow>
            i < length (GetOutputPins this)
            \<and> (\<exists>c\<in>set (GetAllPins OutputNode).
                  LinkedTo c \<noteq> [] \<and> GetType (PinVar c) = ParameterMapDef H
                  \<and> IsEquivalent X (PinVar (GetOutputPins this ! i)) (PinVar c)
                  \<and> p = TraceFirstLink X c))"
proof -
  let ?n = "FunctionDisplayName this"
  have shape: "\<exists>pre. BuildParameterMapHistory X H this bRecursive =
                    Inr (pre @ ExitFunction ?n
                         # map (\<lambda>(i, p). RegisterParameterMapPin (TraceParameterMapOutputPin_Result H p) i)
                             (MatchedPairs X H OutputNode (GetOutputPins this)))
                 \<and> EnterFunction ?n \<in> set pre
                 \<and> OpenScopes pre = 1
                 \<and> (\<forall>c\<in>set pre. \<forall>idx pin. c \<noteq> RegisterParameterMapPin idx pin)"
    if en: "IsNodeEnabled this \<or> \<not> GetIgnoreDisabled H"
      and out: "FindCalleeOutputNode (NodeGraph script) = Some OutputNode" for OutputNode
    using en out script
    by (auto simp: BuildParameterMapHistory_def Let_def OpenScopes_append OpenScopes_Trace
        split: option.splits list.splits)
  have safety: "OpenScopes (take k calls) = 0 \<and> ExitFunction ?n \<in> set (take k calls)"
    if b: "BuildParameterMapHistory X H this bRecursive = Inr calls"
      and k: "k < length calls" and r: "calls ! k = RegisterParameterMapPin idx pin"
    for calls k idx pin
  proof (cases "IsNodeEnabled this \<or> \<not> GetIgnoreDisabled H")
    case False
    then have "calls = [Super_BuildParameterMapHistory, RouteParameterMapAroundMe]"
      using b by (simp add: BuildParameterMapHistory_def)
    then show ?thesis using k r by (auto simp: nth_Cons split: nat.splits)
  next
    case True
    from b script obtain OutputNode where out: "FindCalleeOutputNode (NodeGraph script) = Some OutputNode"
      using True by (auto simp: BuildParameterMapHistory_def Let_def split: option.splits if_splits)
    from shape[OF True out] obtain pre where pre:
      "BuildParameterMapHistory X H this bRecursive =
         Inr (pre @ ExitFunction ?n
              # map (\<lambda>(i, p). RegisterParameterMapPin (TraceParameterMapOutputPin_Result H p) i)
                  (MatchedPairs X H OutputNode (GetOutputPins this)))"
      "OpenScopes pre = 1"
      "\<forall>c\<in>set pre. \<forall>idx pin. c \<noteq> RegisterParameterMapPin idx pin"
      by blast
    have c: "calls = pre @ ExitFunction ?n
              # map (\<lambda>(i, p). RegisterParameterMapPin (TraceParameterMapOutputPin_Result H p) i)
                  (MatchedPairs X H OutputNode (GetOutputPins this))"
      using b pre(1) by simp
    show ?thesis
      using Register_after_Exit[OF pre(2,3), of k ?n "TraceParameterMapOutputPin_Result H"
          "MatchedPairs X H OutputNode (GetOutputPins this)" idx pin] k r
      unfolding c by blast
  qed
  have none: "FindCalleeOutputNode (NodeGraph script) = None"
    if "BuildParameterMapHistory X H this bRecursive = Inl e" for e
    using that script
    by (auto simp: BuildParameterMapHistory_def Let_def split: option.splits if_splits)
  have main: "(case BuildParameterMapHistory X H this bRecursive of
            Inl e \<Rightarrow> FindCalleeOutputNode (NodeGraph script) = None
          | Inr calls \<Rightarrow>
              (\<forall>k<length calls. \<forall>idx pin. calls ! k = RegisterParameterMapPin idx pin \<longrightarrow>
                 OpenScopes (take k calls) = 0
                 \<and> ExitFunction (FunctionDisplayName this) \<in> set (take k calls)))
       \<and> (\<forall>OutputNode. (IsNodeEnabled this \<or> \<not> GetIgnoreDisabled H)
              \<and> FindCalleeOutputNode (NodeGraph script) = Some OutputNode \<longrightarrow>
            (\<exists>pre. BuildParameterMapHistory X H this bRecursive =
                    Inr (pre @ ExitFunction (FunctionDisplayName this)
                         # map (\<lambda>(i, p). RegisterParameterMapPin (TraceParameterMapOutputPin_Result H p) i)
                             (MatchedPairs X H OutputNode (GetOutputPins this)))
                 \<and> EnterFunction (FunctionDisplayName this) \<in> set pre
                 \<and> OpenScopes pre = 1
                 \<and> (\<forall>c\<in>set pre. \<forall>idx pin. c \<noteq> RegisterParameterMapPin idx pin)))"
    using shape safety none by (auto split: sum.splits)
  have sound: "(\<forall>OutputNode i p. (i, p) \<in> set (MatchedPairs X H OutputNode (GetOutputPins this)) \<longrightarrow>
            i < length (GetOutputPins this)
            \<and> (\<exists>c\<in>set (GetAllPins OutputNode).
                  LinkedTo c \<noteq> [] \<and> GetType (PinVar c) = ParameterMapDef H
                  \<and> IsEquivalent X (PinVar (GetOutputPins this ! i)) (PinVar c)
                  \<and> p = TraceFirstLink X c))"
    by (auto simp: MatchedPairs_def split: if_splits)
  show ?thesis
    by (rule conjI[OF main sound])
qed

theorem BuildParameterMapHistory_registers_after_exit_witness:
  "\<exists>pre. BuildParameterMapHistory ex_X ex_H ex_HistoryCallSite True =
           Inr (pre @ [ExitFunction ''Emit'', RegisterParameterMapPin 3 0])
     \<and> EnterFunction ''Emit'' \<in> set pre \<and> OpenScopes pre = 1"
proof -
  let ?script = "ex_Script\<lparr>NodeGraph :=
                  ex_FunctionGraph\<lparr>FindOutputNode :=
                    (\<lambda>u. if u = Module then Some ex_OutputNode else None)\<rparr>\<rparr>"
  have h: "FunctionScript ex_HistoryCallSite = Some ?script"
    by (simp add: ex_HistoryCallSite_def)
  have e: "IsNodeEnabled ex_HistoryCallSite \<or> \<not> GetIgnoreDisabled ex_H"
    by (simp add: ex_HistoryCallSite_def ex_CallSite_def)
  have out: "FindCalleeOutputNode (NodeGraph ?script) = Some ex_OutputNode"
    by (simp add: FindCalleeOutputNode_def)
  have pairs: "map (\<lambda>(i, p). RegisterParameterMapPin (TraceParameterMapOutputPin_Result ex_H p) i)
                 (MatchedPairs ex_X ex_H ex_OutputNode (GetOutputPins ex_HistoryCallSite))
               = [RegisterParameterMapPin 3 0]"
    by (simp add: MatchedPairs_def TraceFirstLink_def ex_H_def ex_X_def ex_OutputNode_def
        ex_HistoryCallSite_def ex_Pin_def ex_MapVar_def ex_ParameterMap_def)
  have n: "FunctionDisplayName ex_HistoryCallSite = ''Emit''"
    by (simp add: ex_HistoryCallSite_def ex_CallSite_def)
  have "\<exists>pre. BuildParameterMapHistory ex_X ex_H ex_HistoryCallSite True =
            Inr (pre @ ExitFunction (FunctionDisplayName ex_HistoryCallSite)
                 # map (\<lambda>(i, p). RegisterParameterMapPin (TraceParameterMapOutputPin_Result ex_H p) i)
                     (MatchedPairs ex_X ex_H ex_OutputNode (GetOutputPins ex_HistoryCallSite)))
          \<and> EnterFunction (FunctionDisplayName ex_HistoryCallSite) \<in> set pre
          \<and> OpenScopes pre = 1
          \<and> (\<forall>c\<in>set pre. \<forall>idx pin. c \<noteq> RegisterParameterMapPin idx pin)"
    using BuildParameterMapHistory_registers_after_exit[OF h, of ex_X ex_H True,
        THEN conjunct1, THEN conjunct2, rule_format, of ex_OutputNode] e out
    by simp
  then obtain pre where
    "BuildParameterMapHistory ex_X ex_H ex_HistoryCallSite True =
       Inr (pre @ [ExitFunction ''Emit'', RegisterParameterMapPin 3 0])"
    "EnterFunction ''Emit'' \<in> set pre" "OpenScopes pre = 1"
    unfolding pairs n by auto
  then show ?thesis by blast
qed

end
